theory Spec2Isabelle
  imports Complex_Main "HOL-Library.Word"
begin

section \<open>music-sync: the data of \<^verbatim>\<open>music_sync/__main__.py\<close>\<close>

text \<open>
  The program is one sequential routine, \<^verbatim>\<open>entrypoint\<close>, around three remote services:
  the YouTube listing API, the pytube downloader and the Google Drive upload API.
  The services are the environment of the model: what each call answers is a field of
  \<open>env\<close>, and what the program does to the outside world is written into a
  \<open>run_state\<close> that every effectful step takes and returns.

  Exceptions are values. Only subclasses of Python's \<^verbatim>\<open>Exception\<close> are modelled, since
  these are what \<^verbatim>\<open>except Exception\<close> catches: \<open>ExternalError\<close> is anything raised by
  a remote call, \<open>ValidationError\<close> is pydantic's, \<open>ValueError\<close> is the one
  \<^verbatim>\<open>time.sleep\<close> raises. The string is \<^verbatim>\<open>str(e)\<close>.
\<close>

datatype exn = ExternalError string | ValidationError string | ValueError string

fun str_exn :: "exn \<Rightarrow> string" where
  "str_exn (ExternalError m) = m"
| "str_exn (ValidationError m) = m"
| "str_exn (ValueError m) = m"

type_synonym bytes = "8 word list"

record Settings =
  GOOGLE_CREDENTIALS :: string
  GOOGLE_AUDIO_PARENT_ID :: string
  GOOGLE_REPORTING_PARENT_ID :: string
  YOUTUBE_API_KEY :: string
  GOOGLE_SCOPES :: "string list"
  YOUTUBE_PLAYLIST_ID :: string

text \<open>\<^verbatim>\<open>datetime.date\<close>: a year from 1 to 9999, a month, a day of the month.\<close>

record date =
  year :: nat
  month :: nat
  day :: nat


subsection \<open>The listing API\<close>

text \<open>
  A page request carries the four keyword arguments of \<^verbatim>\<open>playlistItems().list(...)\<close>.
  A response is the JSON object the API answers with; every key the reader looks up with
  \<^verbatim>\<open>.get\<close> may be absent, which is \<open>None\<close> here.
\<close>

record list_request =
  part :: string
  maxResults :: nat
  playlistId :: string
  pageToken :: "string option"

datatype content_details = ContentDetails (videoId: "string option")

datatype snippet = Snippet (snippet_title: "string option")

datatype resource =
  Resource (contentDetails: "content_details option") (snippet: "snippet option")

datatype list_response =
  Response (response_items: "resource list option") (nextPageToken: "string option")

text \<open>\<^verbatim>\<open>d.get(key, default)\<close> on an optional key.\<close>

fun get_default :: "'a option \<Rightarrow> 'a \<Rightarrow> 'a" where
  "get_default None d = d"
| "get_default (Some v) d = v"

text \<open>
  Truth value of \<^verbatim>\<open>page_token\<close> in \<^verbatim>\<open>if not page_token\<close>: \<^verbatim>\<open>None\<close> and the empty
  string are both false.
\<close>

fun truthy :: "string option \<Rightarrow> bool" where
  "truthy None = False"
| "truthy (Some s) = (s \<noteq> [])"

subsection \<open>The snapshot: pydantic models\<close>

record PlaylistItem =
  video :: string
  title :: string

record Playlist =
  items :: "PlaylistItem list"
  name :: "string option"

text \<open>
  \<^verbatim>\<open>Playlist()\<close>: \<open>items\<close> takes a copy of its default \<^verbatim>\<open>[]\<close>, and the optional
  \<open>name\<close> is \<^verbatim>\<open>None\<close>.
\<close>

definition Playlist_init :: Playlist where
  "Playlist_init = \<lparr>items = [], name = None\<rparr>"

text \<open>
  \<^verbatim>\<open>PlaylistItem(video=video, title=title)\<close>. Both fields are declared \<^verbatim>\<open>str\<close>, so
  pydantic rejects \<^verbatim>\<open>None\<close> for either of them with a \<^verbatim>\<open>ValidationError\<close> (its message
  is abridged here to the error's text); a string, empty or not, is taken as it is.
\<close>

definition none_not_allowed :: exn where
  "none_not_allowed = ValidationError ''none is not an allowed value''"

fun PlaylistItem_init :: "string option \<Rightarrow> string option \<Rightarrow> exn + PlaylistItem" where
  "PlaylistItem_init (Some v) (Some t) = Inr \<lparr>video = v, title = t\<rparr>"
| "PlaylistItem_init _ _ = Inl none_not_allowed"

text \<open>
  The JSON document of a model, as a tree. \<^verbatim>\<open>playlist.json()\<close> is
  \<^verbatim>\<open>json.dumps(playlist.dict())\<close>: the fields in declaration order, \<^verbatim>\<open>None\<close> as
  \<^verbatim>\<open>null\<close>. The text codec (\<^verbatim>\<open>json.dumps\<close>, \<^verbatim>\<open>json.loads\<close>) is the standard
  library's and is not part of the model: a document is its tree.
\<close>

datatype json = JNull | JString string | JArray "json list" | JObject "(string \<times> json) list"

definition PlaylistItem_json :: "PlaylistItem \<Rightarrow> json" where
  "PlaylistItem_json i = JObject [(''video'', JString (video i)), (''title'', JString (title i))]"

definition Playlist_json :: "Playlist \<Rightarrow> json" where
  "Playlist_json p =
     JObject [(''items'', JArray (map PlaylistItem_json (items p))),
              (''name'', (case name p of None \<Rightarrow> JNull | Some n \<Rightarrow> JString n))]"

text \<open>
  Parsing a document back into the models (\<^verbatim>\<open>Playlist.parse_raw\<close>, which validates the
  tree against the declared fields): \<open>video\<close> and \<open>title\<close> are required strings,
  \<open>items\<close> is a list of items and defaults to the empty list, \<open>name\<close> is a string
  or null and defaults to \<^verbatim>\<open>None\<close>. Keys are looked up by name; other keys are ignored.
\<close>

definition field_required :: exn where
  "field_required = ValidationError ''field required''"

definition type_error :: exn where
  "type_error = ValidationError ''value is not a valid type''"

fun str_field :: "json option \<Rightarrow> exn + string" where
  "str_field None = Inl field_required"
| "str_field (Some (JString s)) = Inr s"
| "str_field (Some JNull) = Inl none_not_allowed"
| "str_field (Some _) = Inl type_error"

fun PlaylistItem_parse :: "json \<Rightarrow> exn + PlaylistItem" where
  "PlaylistItem_parse (JObject kv) =
     (case str_field (map_of kv ''video'') of
        Inl e \<Rightarrow> Inl e
      | Inr v \<Rightarrow>
          (case str_field (map_of kv ''title'') of
             Inl e \<Rightarrow> Inl e
           | Inr t \<Rightarrow> Inr \<lparr>video = v, title = t\<rparr>))"
| "PlaylistItem_parse _ = Inl type_error"

fun parse_items :: "json list \<Rightarrow> exn + PlaylistItem list" where
  "parse_items [] = Inr []"
| "parse_items (j # js) =
     (case PlaylistItem_parse j of
        Inl e \<Rightarrow> Inl e
      | Inr i \<Rightarrow> (case parse_items js of Inl e \<Rightarrow> Inl e | Inr is \<Rightarrow> Inr (i # is)))"

fun items_field :: "json option \<Rightarrow> exn + PlaylistItem list" where
  "items_field None = Inr []"
| "items_field (Some (JArray js)) = parse_items js"
| "items_field (Some JNull) = Inl none_not_allowed"
| "items_field (Some _) = Inl type_error"

fun name_field :: "json option \<Rightarrow> exn + string option" where
  "name_field None = Inr None"
| "name_field (Some JNull) = Inr None"
| "name_field (Some (JString s)) = Inr (Some s)"
| "name_field (Some _) = Inl type_error"

fun Playlist_parse :: "json \<Rightarrow> exn + Playlist" where
  "Playlist_parse (JObject kv) =
     (case items_field (map_of kv ''items'') of
        Inl e \<Rightarrow> Inl e
      | Inr is \<Rightarrow>
          (case name_field (map_of kv ''name'') of
             Inl e \<Rightarrow> Inl e
           | Inr n \<Rightarrow> Inr \<lparr>items = is, name = n\<rparr>))"
| "Playlist_parse _ = Inl type_error"

subsection \<open>The outside world\<close>

text \<open>
  A Drive upload is \<^verbatim>\<open>files().create(body={"name", "parents"}, media_body=...)\<close>: the
  file's name, its parent folders, and the media with its MIME type. The media is the
  JSON document for the report (\<^verbatim>\<open>StringIO\<close>) and the fetched bytes for a track
  (\<^verbatim>\<open>BytesIO\<close>).
\<close>

datatype media = StringIO json | BytesIO bytes

datatype drive_file =
  DriveFile (file_name: string) (parents: "string list") (mimetype: string) (media_body: media)

text \<open>The two places \<^verbatim>\<open>entrypoint\<close> uploads from: the report, and the track at a position
  of the snapshot (counted from 0).\<close>

datatype call_site = Report | Track nat

text \<open>
  The environment of one run. The listing API answers a request; the downloader answers
  the URL asked for the track at a position; Drive accepts or refuses an upload
  (\<open>None\<close> is success); \<open>upload_seconds k\<close> is the difference of the two
  \<^verbatim>\<open>perf_counter()\<close> readings around the upload of track \<open>k\<close>, a real number: the
  program only uses the sign of \<^verbatim>\<open>30 - delay\<close>, which floating point keeps. Loading the
  settings and building the two API clients are taken to have succeeded.
\<close>

record env =
  settings :: Settings
  today :: date
  playlistItems_list :: "list_request \<Rightarrow> exn + list_response"
  stream_to_buffer :: "nat \<Rightarrow> string \<Rightarrow> exn + bytes"
  files_create :: "call_site \<Rightarrow> drive_file \<Rightarrow> exn option"
  upload_seconds :: "nat \<Rightarrow> real"

text \<open>
  What a run has done so far: the lines printed on the console, the remote calls made
  (whether they succeeded or not), the files that exist on Drive because an upload
  returned, and the durations \<^verbatim>\<open>sleep\<close> has paused for.
\<close>

datatype call = ListCall list_request | FetchCall string | CreateCall drive_file

record run_state =
  console :: "string list"
  calls :: "call list"
  drive :: "drive_file list"
  slept :: "real list"

definition init_state :: run_state where
  "init_state = \<lparr>console = [], calls = [], drive = [], slept = []\<rparr>"

text \<open>
  \<^verbatim>\<open>console.print(line)\<close>: the line handed to the console is recorded as it is. How the
  console renders it is not part of the model, and neither is the error its markup
  parser raises on an unmatched closing tag: titles and error messages are taken to be
  free of such tags.
\<close>

definition print :: "string \<Rightarrow> run_state \<Rightarrow> run_state" where
  "print line s = s\<lparr>console := console s @ [line]\<rparr>"

definition list_execute :: "env \<Rightarrow> list_request \<Rightarrow> run_state \<Rightarrow> (exn + list_response) \<times> run_state" where
  "list_execute e req s = (playlistItems_list e req, s\<lparr>calls := calls s @ [ListCall req]\<rparr>)"

definition fetch_execute :: "env \<Rightarrow> nat \<Rightarrow> string \<Rightarrow> run_state \<Rightarrow> (exn + bytes) \<times> run_state" where
  "fetch_execute e k url s = (stream_to_buffer e k url, s\<lparr>calls := calls s @ [FetchCall url]\<rparr>)"

definition create_execute :: "env \<Rightarrow> call_site \<Rightarrow> drive_file \<Rightarrow> run_state \<Rightarrow> exn option \<times> run_state" where
  "create_execute e site f s =
     (let s1 = s\<lparr>calls := calls s @ [CreateCall f]\<rparr>
      in case files_create e site f of
           Some x \<Rightarrow> (Some x, s1)
         | None \<Rightarrow> (None, s1\<lparr>drive := drive s1 @ [f]\<rparr>))"

text \<open>\<^verbatim>\<open>time.sleep(secs)\<close>: a negative argument raises \<^verbatim>\<open>ValueError\<close>, anything else
  pauses for that long.\<close>

definition sleep :: "real \<Rightarrow> run_state \<Rightarrow> exn option \<times> run_state" where
  "sleep secs s =
     (if secs < 0 then (Some (ValueError ''sleep length must be non-negative''), s)
      else (None, s\<lparr>slept := slept s @ [secs]\<rparr>))"

section \<open>The program\<close>

subsection \<open>\<^verbatim>\<open>YoutubePlaylist\<close>: the playlist reader\<close>

text \<open>
  What the generator yields for one item of a page:
  \<^verbatim>\<open>item.get("contentDetails", {}).get("videoId")\<close> and
  \<^verbatim>\<open>item.get("snippet", {}).get("title")\<close>. A missing key gives \<^verbatim>\<open>None\<close>.
\<close>

definition yield_of :: "resource \<Rightarrow> string option \<times> string option" where
  "yield_of item =
     (videoId (get_default (contentDetails item) (ContentDetails None)),
      snippet_title (get_default (snippet item) (Snippet None)))"

text \<open>
  A generator consumed by a \<^verbatim>\<open>for\<close> loop runs the loop's body at each
  \<^verbatim>\<open>yield\<close>, so the reader takes the body as an argument: \<open>body pair a\<close> is one
  iteration on the loop's variables \<open>a\<close>, and \<open>Inl\<close> is the exception it raises,
  which ends the generator with it. The inner \<^verbatim>\<open>for item in playlist.get("items", [])\<close>:
\<close>

fun for_items ::
  "(string option \<times> string option \<Rightarrow> 'a \<Rightarrow> exn + 'a) \<Rightarrow> resource list \<Rightarrow> 'a \<Rightarrow> exn + 'a" where
  "for_items body [] a = Inr a"
| "for_items body (item # rest) a =
     (case body (yield_of item) a of
        Inl x \<Rightarrow> Inl x
      | Inr a' \<Rightarrow> for_items body rest a')"

definition page_request :: "string \<Rightarrow> string option \<Rightarrow> list_request" where
  "page_request playlist_id page_token =
     \<lparr>part = ''snippet,contentDetails'', maxResults = 25,
      playlistId = playlist_id, pageToken = page_token\<rparr>"

text \<open>
  The \<^verbatim>\<open>while has_next\<close> loop, entered with the current \<open>page_token\<close>. It may run
  forever (a provider that always hands out a token), so the result is an option and
  \<open>None\<close> is a run that does not return.
\<close>

partial_function (option) YoutubePlaylist_loop ::
  "env \<Rightarrow> string \<Rightarrow> (string option \<times> string option \<Rightarrow> 'a \<Rightarrow> exn + 'a) \<Rightarrow>
   string option \<Rightarrow> 'a \<Rightarrow> run_state \<Rightarrow> ((exn + 'a) \<times> run_state) option" where
  "YoutubePlaylist_loop e playlist_id body page_token a s =
     (case list_execute e (page_request playlist_id page_token) s of
        (Inl x, s1) \<Rightarrow> Some (Inl x, s1)
      | (Inr playlist, s1) \<Rightarrow>
          (case for_items body (get_default (response_items playlist) []) a of
             Inl x \<Rightarrow> Some (Inl x, s1)
           | Inr a' \<Rightarrow>
               if truthy (nextPageToken playlist)
               then YoutubePlaylist_loop e playlist_id body (nextPageToken playlist) a' s1
               else Some (Inr a', s1)))"

declare YoutubePlaylist_loop.simps [code]

definition YoutubePlaylist ::
  "env \<Rightarrow> string \<Rightarrow> (string option \<times> string option \<Rightarrow> 'a \<Rightarrow> exn + 'a) \<Rightarrow>
   'a \<Rightarrow> run_state \<Rightarrow> ((exn + 'a) \<times> run_state) option" where
  "YoutubePlaylist e playlist_id body a s = YoutubePlaylist_loop e playlist_id body None a s"

text \<open>The sequence the reader yields: the loop body that only records each pair.\<close>

definition record_pair ::
  "string option \<times> string option \<Rightarrow> (string option \<times> string option) list \<Rightarrow>
   exn + (string option \<times> string option) list" where
  "record_pair p acc = Inr (acc @ [p])"

subsection \<open>\<^verbatim>\<open>entrypoint\<close>\<close>

text \<open>The body of the first loop:
  \<^verbatim>\<open>playlist.items.append(PlaylistItem(video=video, title=title))\<close>.\<close>

definition append_item :: "string option \<times> string option \<Rightarrow> Playlist \<Rightarrow> exn + Playlist" where
  "append_item p playlist =
     (case PlaylistItem_init (fst p) (snd p) of
        Inl x \<Rightarrow> Inl x
      | Inr i \<Rightarrow> Inr (playlist\<lparr>items := items playlist @ [i]\<rparr>))"

text \<open>
  \<^verbatim>\<open>{today:%Y}{today:%m}{today:%d}\<close>. CPython hands the format to the C library:
  \<^verbatim>\<open>%m\<close> and \<^verbatim>\<open>%d\<close> are two digits padded with a zero, and \<^verbatim>\<open>%Y\<close> is the year in
  decimal, which glibc does not pad. So the year is four digits from the year 1000 on
  (every date \<^verbatim>\<open>date.today()\<close> returns in practice) and shorter before.
\<close>

definition digit :: "nat \<Rightarrow> char" where
  "digit n = ''0123456789'' ! (n mod 10)"

definition strftime_Y :: "date \<Rightarrow> string" where
  "strftime_Y d =
     (if year d < 10 then [digit (year d)]
      else if year d < 100 then [digit (year d div 10), digit (year d)]
      else if year d < 1000 then [digit (year d div 100), digit (year d div 10), digit (year d)]
      else [digit (year d div 1000), digit (year d div 100), digit (year d div 10),
            digit (year d)])"

definition strftime_m :: "date \<Rightarrow> string" where
  "strftime_m d = [digit (month d div 10), digit (month d)]"

definition strftime_d :: "date \<Rightarrow> string" where
  "strftime_d d = [digit (day d div 10), digit (day d)]"

definition report_name :: "env \<Rightarrow> string" where
  "report_name e =
     ''youtube-'' @ YOUTUBE_PLAYLIST_ID (settings e) @ ''-'' @
     strftime_Y (today e) @ strftime_m (today e) @ strftime_d (today e) @ ''.json''"

definition report_file :: "env \<Rightarrow> Playlist \<Rightarrow> drive_file" where
  "report_file e playlist =
     DriveFile (report_name e) [GOOGLE_REPORTING_PARENT_ID (settings e)]
       ''application/json'' (StringIO (Playlist_json playlist))"

definition watch_url :: "PlaylistItem \<Rightarrow> string" where
  "watch_url item = ''https://youtube.com/watch?v='' @ video item"

definition track_file :: "env \<Rightarrow> PlaylistItem \<Rightarrow> bytes \<Rightarrow> drive_file" where
  "track_file e item buffer =
     DriveFile (title item @ ''.mp3'') [GOOGLE_AUDIO_PARENT_ID (settings e)]
       ''audio/mpeg3'' (BytesIO buffer)"

definition warning_line :: "PlaylistItem \<Rightarrow> exn \<Rightarrow> string" where
  "warning_line item x =
     '':warning: [yellow]error while processing track '' @ title item @ '': '' @
     str_exn x @ ''[/yellow]''"

text \<open>The duration handed to \<^verbatim>\<open>sleep\<close>: \<^verbatim>\<open>min(30 - delay, 0)\<close>.\<close>

definition throttle :: "real \<Rightarrow> real" where
  "throttle delay = min (30 - delay) 0"

text \<open>The \<^verbatim>\<open>try\<close> block for the track at position \<open>k\<close>; \<open>Some x\<close> is the exception
  that leaves it.\<close>

definition transfer_try :: "env \<Rightarrow> nat \<Rightarrow> PlaylistItem \<Rightarrow> run_state \<Rightarrow> exn option \<times> run_state" where
  "transfer_try e k item s =
     (case fetch_execute e k (watch_url item) s of
        (Inl x, s1) \<Rightarrow> (Some x, s1)
      | (Inr buffer, s1) \<Rightarrow>
          (let s2 = print ('':speak_no_evil: uploading '' @ title item @ ''.mp3 to GDrive'') s1
           in case create_execute e (Track k) (track_file e item buffer) s2 of
                (Some x, s3) \<Rightarrow> (Some x, s3)
              | (None, s3) \<Rightarrow> sleep (throttle (upload_seconds e k)) s3))"

text \<open>One iteration of \<^verbatim>\<open>for item in playlist.items\<close>, with its handler.\<close>

definition transfer_item :: "env \<Rightarrow> nat \<Rightarrow> PlaylistItem \<Rightarrow> run_state \<Rightarrow> run_state" where
  "transfer_item e k item s =
     (case transfer_try e k item (print ('':cd: downloading '' @ title item @ '' from YouTube'') s) of
        (None, s1) \<Rightarrow> s1
      | (Some x, s1) \<Rightarrow> print (warning_line item x) s1)"

fun transfer_loop :: "env \<Rightarrow> nat \<Rightarrow> PlaylistItem list \<Rightarrow> run_state \<Rightarrow> run_state" where
  "transfer_loop e k [] s = s"
| "transfer_loop e k (item # rest) s = transfer_loop e (Suc k) rest (transfer_item e k item s)"

text \<open>
  The first part of \<^verbatim>\<open>entrypoint\<close>, the snapshot builder: an empty \<^verbatim>\<open>Playlist()\<close>,
  the first console line, and the loop over the reader that appends one item per
  yielded pair. \<open>Inl x\<close> is the exception that ends it (raised by the listing call or
  by the \<open>PlaylistItem\<close> constructor).
\<close>

definition build_snapshot :: "env \<Rightarrow> ((exn + Playlist) \<times> run_state) option" where
  "build_snapshot e =
     YoutubePlaylist e (YOUTUBE_PLAYLIST_ID (settings e)) append_item Playlist_init
       (print '':inbox_tray: downloading playlist metadata'' init_state)"

text \<open>
  The whole run. \<open>None\<close>: it does not return. \<open>Some (Some x, s)\<close>: it ends with the
  uncaught exception \<open>x\<close>, having done \<open>s\<close>. \<open>Some (None, s)\<close>: it returns.
\<close>

definition entrypoint :: "env \<Rightarrow> (exn option \<times> run_state) option" where
  "entrypoint e =
     (case build_snapshot e of
        None \<Rightarrow> None
      | Some (Inl x, s1) \<Rightarrow> Some (Some x, s1)
      | Some (Inr playlist, s1) \<Rightarrow>
          (case create_execute e Report (report_file e playlist)
                  (print '':inbox_tray: uploading playlist metadata to GDrive'' s1) of
             (Some x, s2) \<Rightarrow> Some (Some x, s2)
           | (None, s2) \<Rightarrow> Some (None, transfer_loop e 0 (items playlist) s2)))"

section \<open>Observations and example runs\<close>

text \<open>
  A yielded pair is complete when neither field is \<^verbatim>\<open>None\<close>; \<open>pair_of\<close> is the pair a
  snapshot item was built from, and \<open>wrap\<close> the item built from a complete pair.
\<close>

definition complete :: "string option \<times> string option \<Rightarrow> bool" where
  "complete p \<longleftrightarrow> fst p \<noteq> None \<and> snd p \<noteq> None"

definition pair_of :: "PlaylistItem \<Rightarrow> string option \<times> string option" where
  "pair_of i = (Some (video i), Some (title i))"

definition wrap :: "string option \<times> string option \<Rightarrow> PlaylistItem" where
  "wrap p = \<lparr>video = the (fst p), title = the (snd p)\<rparr>"

definition page_items :: "list_response \<Rightarrow> resource list" where
  "page_items page = get_default (response_items page) []"

text \<open>
  The provider serves the playlist as the pages \<open>ps\<close>, starting from the token
  \<open>tok\<close>: the request with \<open>tok\<close> is answered by the first page, every page but the
  last carries a continuation token that the reader takes as one, the request with
  that token is answered by the next page, and the last page carries none (absent, or
  empty).
\<close>

fun serves :: "env \<Rightarrow> string \<Rightarrow> string option \<Rightarrow> list_response list \<Rightarrow> bool" where
  "serves e pid tok [] = False"
| "serves e pid tok [p] =
     (playlistItems_list e (page_request pid tok) = Inr p \<and> \<not> truthy (nextPageToken p))"
| "serves e pid tok (p # q # ps) =
     (playlistItems_list e (page_request pid tok) = Inr p \<and> truthy (nextPageToken p) \<and>
      serves e pid (nextPageToken p) (q # ps))"

text \<open>What a sequence of remote calls asked for: the files it tried to upload and the URLs
  it tried to fetch, in order.\<close>

fun created :: "call \<Rightarrow> drive_file list" where
  "created (CreateCall f) = [f]"
| "created _ = []"

fun fetched :: "call \<Rightarrow> string list" where
  "fetched (FetchCall url) = [url]"
| "fetched _ = []"

definition uploads :: "call list \<Rightarrow> drive_file list" where
  "uploads cs = concat (map created cs)"

definition fetches :: "call list \<Rightarrow> string list" where
  "fetches cs = concat (map fetched cs)"

text \<open>The example of the specification: playlist \<^verbatim>\<open>PL_x\<close> with the two items
  \<^verbatim>\<open>("v1", "Song A")\<close> and \<^verbatim>\<open>("v2", "Song B")\<close> on one page, run on 2024-03-01, every
  remote call succeeding and every upload taking 12 seconds.\<close>

definition example_settings :: Settings where
  "example_settings =
     \<lparr>GOOGLE_CREDENTIALS = ''{}'', GOOGLE_AUDIO_PARENT_ID = ''audio-folder'',
      GOOGLE_REPORTING_PARENT_ID = ''report-folder'', YOUTUBE_API_KEY = ''key'',
      GOOGLE_SCOPES = [''https://www.googleapis.com/auth/drive''],
      YOUTUBE_PLAYLIST_ID = ''PL_x''\<rparr>"

definition example_page :: list_response where
  "example_page =
     Response
       (Some [Resource (Some (ContentDetails (Some ''v1''))) (Some (Snippet (Some ''Song A''))),
              Resource (Some (ContentDetails (Some ''v2''))) (Some (Snippet (Some ''Song B'')))])
       None"

definition example_env :: env where
  "example_env =
     \<lparr>settings = example_settings, today = \<lparr>year = 2024, month = 3, day = 1\<rparr>,
      playlistItems_list = (\<lambda>req. Inr example_page),
      stream_to_buffer = (\<lambda>k url. Inr [1, 2, 3]),
      files_create = (\<lambda>site f. None),
      upload_seconds = (\<lambda>k. 12)\<rparr>"

definition song_a :: PlaylistItem where
  "song_a = \<lparr>video = ''v1'', title = ''Song A''\<rparr>"

text \<open>A playlist of two items served on two pages.\<close>

definition page_one :: list_response where
  "page_one =
     Response
       (Some [Resource (Some (ContentDetails (Some ''v1''))) (Some (Snippet (Some ''Song A'')))])
       (Some ''t2'')"

definition page_two :: list_response where
  "page_two =
     Response
       (Some [Resource (Some (ContentDetails (Some ''v2''))) (Some (Snippet (Some ''Song B'')))])
       None"

definition two_page_env :: env where
  "two_page_env =
     example_env\<lparr>playlistItems_list :=
       (\<lambda>req. if pageToken req = None then Inr page_one
              else if pageToken req = Some ''t2'' then Inr page_two
              else Inl (ExternalError ''invalidPageToken''))\<rparr>"

text \<open>Two playlists with an item that lacks a field: a title in the first, a video id in
  the second.\<close>

definition untitled_env :: env where
  "untitled_env =
     example_env\<lparr>playlistItems_list :=
       (\<lambda>req. Inr (Response
          (Some [Resource (Some (ContentDetails (Some ''v1''))) (Some (Snippet None))]) None))\<rparr>"

definition no_video_env :: env where
  "no_video_env =
     example_env\<lparr>playlistItems_list :=
       (\<lambda>req. Inr (Response
          (Some [Resource None (Some (Snippet (Some ''Song A''))),
                 Resource (Some (ContentDetails (Some ''v2''))) (Some (Snippet (Some ''Song B'')))])
          None))\<rparr>"

text \<open>The example with a Drive that refuses the report, with a listing service that refuses
  the request, and with an empty playlist.\<close>

definition refusing_env :: env where
  "refusing_env =
     example_env\<lparr>files_create :=
       (\<lambda>site f. case site of Report \<Rightarrow> Some (ExternalError ''storageQuotaExceeded'')
                            | Track k \<Rightarrow> None)\<rparr>"





text \<open>The exception that the fetch or the upload of the track at position \<open>k\<close> raises,
  if one of them does; the warning lines among console lines; and the example with a
  first track that cannot be fetched and uploads that take 31 seconds.\<close>

definition transfer_error :: "env \<Rightarrow> nat \<Rightarrow> PlaylistItem \<Rightarrow> exn option" where
  "transfer_error e k item =
     (case stream_to_buffer e k (watch_url item) of
        Inl x \<Rightarrow> Some x
      | Inr buffer \<Rightarrow> files_create e (Track k) (track_file e item buffer))"

definition warnings :: "string list \<Rightarrow> string list" where
  "warnings ls = filter (\<lambda>l. take 9 l = '':warning:'') ls"

definition slow_env :: env where
  "slow_env =
     example_env\<lparr>stream_to_buffer :=
                   (\<lambda>k url. if k = 0 then Inl (ExternalError ''video unavailable'')
                            else Inr [1, 2, 3]),
                 upload_seconds := (\<lambda>k. 31)\<rparr>"

section \<open>Properties\<close>

subsection \<open>The snapshot document\<close>

lemma parse_items_json: "parse_items (map PlaylistItem_json xs) = Inr xs"
  by (induction xs) (simp_all add: PlaylistItem_json_def)

text \<open>
  Claim C7. Serialising a snapshot to its JSON document and parsing that document back
  gives the same snapshot: every item with its video id and its title unchanged, in the
  same order (and the same name).
\<close>

theorem Playlist_json_roundtrip: "Playlist_parse (Playlist_json p) = Inr p"
  by (cases "name p") (simp_all add: Playlist_json_def parse_items_json)

subsection \<open>The throttle\<close>

lemmas step_defs = transfer_item_def transfer_try_def fetch_execute_def create_execute_def
  sleep_def print_def

text \<open>
  Claim C2, as the code has it. After a successful upload the duration handed to
  \<^verbatim>\<open>sleep\<close> is \<open>min (30 - elapsed) 0\<close>. It is 0 whenever the upload took at most 30
  seconds (30 included) and negative otherwise. It is never positive, so the throttle
  never delays the run: \<^verbatim>\<open>sleep\<close> pauses for 0 seconds in the first case, and in the
  second it does not pause either, but it is not a no-op: it rejects the negative
  duration with a \<^verbatim>\<open>ValueError\<close>, which leaves the \<^verbatim>\<open>try\<close> block.
\<close>

theorem throttle_never_delays:
  assumes "stream_to_buffer e k (watch_url item) = Inr buffer"
    and "files_create e (Track k) (track_file e item buffer) = None"
  shows "throttle (upload_seconds e k) = min (30 - upload_seconds e k) 0 \<and>
         throttle (upload_seconds e k) =
           (if upload_seconds e k \<le> 30 then 0 else 30 - upload_seconds e k) \<and>
         throttle (upload_seconds e k) \<le> 0 \<and>
         drive (snd (transfer_try e k item s)) = drive s @ [track_file e item buffer] \<and>
         fst (transfer_try e k item s) =
           (if upload_seconds e k \<le> 30 then None
            else Some (ValueError ''sleep length must be non-negative'')) \<and>
         slept (snd (transfer_try e k item s)) =
           (if upload_seconds e k \<le> 30 then slept s @ [throttle (upload_seconds e k)]
            else slept s) \<and>
         sum_list (slept (transfer_item e k item s)) = sum_list (slept s)"
  using assms by (simp add: step_defs throttle_def Let_def)

theorem throttle_never_delays_witness:
  "throttle 45 = - 15 \<and>
   drive (snd (transfer_try (example_env\<lparr>upload_seconds := \<lambda>k. 45\<rparr>) 0 song_a init_state)) =
     [DriveFile ''Song A.mp3'' [''audio-folder''] ''audio/mpeg3'' (BytesIO [1, 2, 3])] \<and>
   fst (transfer_try (example_env\<lparr>upload_seconds := \<lambda>k. 45\<rparr>) 0 song_a init_state) =
     Some (ValueError ''sleep length must be non-negative'') \<and>
   slept (snd (transfer_try (example_env\<lparr>upload_seconds := \<lambda>k. 45\<rparr>) 0 song_a init_state)) = [] \<and>
   sum_list (slept (transfer_item (example_env\<lparr>upload_seconds := \<lambda>k. 45\<rparr>) 0 song_a init_state)) = 0"
  using throttle_never_delays [of "example_env\<lparr>upload_seconds := \<lambda>k. 45\<rparr>" 0 song_a "[1, 2, 3]" init_state]
  by (simp add: example_env_def example_settings_def init_state_def song_a_def track_file_def)

text \<open>
  Claim C2 as it is written fails twice. An upload of exactly 30 seconds is not under 30
  seconds, and its duration is 0, not negative. And a negative duration is not a no-op:
  \<^verbatim>\<open>sleep\<close> raises on it.
\<close>

theorem throttle_negative_no_op_counterexample:
  "throttle 30 = 0 \<and> throttle 31 = - 1 \<and>
   sleep (throttle 31) init_state =
     (Some (ValueError ''sleep length must be non-negative''), init_state)"
  by (simp add: throttle_def sleep_def)

text \<open>
  Claim C10. A track whose fetch and upload both succeed is logged as failed whenever
  its upload took more than 30 seconds: the file is on Drive, \<^verbatim>\<open>sleep\<close> raises on the
  negative duration inside the \<^verbatim>\<open>try\<close> block, and the handler prints the warning
  for this track. So a warning does not mean that the upload failed.
\<close>

theorem slow_upload_logged_as_failure:
  assumes "stream_to_buffer e k (watch_url item) = Inr buffer"
    and "files_create e (Track k) (track_file e item buffer) = None"
    and "30 < upload_seconds e k"
  shows "drive (transfer_item e k item s) = drive s @ [track_file e item buffer] \<and>
         console (transfer_item e k item s) =
           console s @
           ['':cd: downloading '' @ title item @ '' from YouTube'',
            '':speak_no_evil: uploading '' @ title item @ ''.mp3 to GDrive'',
            warning_line item (ValueError ''sleep length must be non-negative'')] \<and>
         slept (transfer_item e k item s) = slept s"
  using assms by (simp add: step_defs throttle_def Let_def)

theorem slow_upload_logged_as_failure_witness:
  "drive (transfer_item (example_env\<lparr>upload_seconds := \<lambda>k. 31\<rparr>) 0 song_a init_state) =
     [DriveFile ''Song A.mp3'' [''audio-folder''] ''audio/mpeg3'' (BytesIO [1, 2, 3])] \<and>
   console (transfer_item (example_env\<lparr>upload_seconds := \<lambda>k. 31\<rparr>) 0 song_a init_state) =
     ['':cd: downloading Song A from YouTube'',
      '':speak_no_evil: uploading Song A.mp3 to GDrive'',
      '':warning: [yellow]error while processing track Song A: sleep length must be non-negative[/yellow]'']"
  using slow_upload_logged_as_failure [of "example_env\<lparr>upload_seconds := \<lambda>k. 31\<rparr>" 0 song_a "[1, 2, 3]" init_state]
  by (simp add: example_env_def example_settings_def init_state_def song_a_def track_file_def warning_line_def)

subsection \<open>The playlist reader\<close>

lemma for_items_record: "for_items record_pair its acc = Inr (acc @ map yield_of its)"
  by (induction its arbitrary: acc) (simp_all add: record_pair_def)

lemma loop_serves_record:
  "serves e pid tok ps \<Longrightarrow>
   YoutubePlaylist_loop e pid record_pair tok acc s =
     Some (Inr (acc @ map yield_of (concat (map page_items ps))),
           s\<lparr>calls := calls s @
                map (\<lambda>t. ListCall (page_request pid t)) (tok # map nextPageToken (butlast ps))\<rparr>)"
proof (induction e pid tok ps arbitrary: acc s rule: serves.induct)
  case (1 e pid tok)
  then show ?case by simp
next
  case (2 e pid tok p)
  then show ?case
    by (subst YoutubePlaylist_loop.simps)
       (simp add: list_execute_def for_items_record page_items_def [symmetric])
next
  case (3 e pid tok p q ps)
  from 3(2) have a: "playlistItems_list e (page_request pid tok) = Inr p"
    and t: "truthy (nextPageToken p)" and r: "serves e pid (nextPageToken p) (q # ps)"
    by simp_all
  show ?case
    by (subst YoutubePlaylist_loop.simps)
       (simp add: list_execute_def for_items_record page_items_def [symmetric] a t 3(1)[OF r])
qed

lemma serves_tokens:
  "serves e pid tok ps \<Longrightarrow>
   ps \<noteq> [] \<and> (\<forall>p \<in> set (butlast ps). truthy (nextPageToken p)) \<and>
   \<not> truthy (nextPageToken (last ps))"
  by (induction e pid tok ps rule: serves.induct) simp_all

text \<open>
  Claim C5. When the provider serves the playlist as the pages \<open>ps\<close>, however its
  \<open>N\<close> items are spread over them (pages of 25 in particular), the reader returns, it
  yields the pair of every item of every page, in page order, so \<open>N\<close> pairs; it makes
  one request per page, each for at most 25 results of the playlist, the first without a
  page token and each later one with the token of the page before; and it stops at the
  first page that carries no continuation token (none, or an empty one), having
  followed every token before it.
\<close>

theorem reader_yields_all_pages:
  assumes "serves e pid None ps"
  shows "YoutubePlaylist e pid record_pair [] s =
           Some (Inr (map yield_of (concat (map page_items ps))),
                 s\<lparr>calls := calls s @
                      map (\<lambda>t. ListCall (page_request pid t))
                        (None # map nextPageToken (butlast ps))\<rparr>) \<and>
         length (map yield_of (concat (map page_items ps))) =
           sum_list (map (\<lambda>p. length (page_items p)) ps) \<and>
         (\<forall>t. page_request pid t =
            \<lparr>part = ''snippet,contentDetails'', maxResults = 25, playlistId = pid,
             pageToken = t\<rparr>) \<and>
         length (None # map nextPageToken (butlast ps)) = length ps \<and>
         (\<forall>p \<in> set (butlast ps). truthy (nextPageToken p)) \<and>
         \<not> truthy (nextPageToken (last ps))"
proof -
  have "length (concat (map page_items ps)) = sum_list (map (\<lambda>p. length (page_items p)) ps)"
    by (simp add: length_concat comp_def)
  moreover from serves_tokens [OF assms] have "length (None # map nextPageToken (butlast ps)) = length ps"
    by simp
  ultimately show ?thesis
    using loop_serves_record [OF assms, of "[]" s] serves_tokens [OF assms]
    by (simp add: YoutubePlaylist_def page_request_def)
qed

theorem reader_yields_all_pages_witness:
  "YoutubePlaylist two_page_env ''PL_x'' record_pair [] init_state =
     Some (Inr [(Some ''v1'', Some ''Song A''), (Some ''v2'', Some ''Song B'')],
           \<lparr>console = [],
            calls = [ListCall \<lparr>part = ''snippet,contentDetails'', maxResults = 25,
                               playlistId = ''PL_x'', pageToken = None\<rparr>,
                     ListCall \<lparr>part = ''snippet,contentDetails'', maxResults = 25,
                               playlistId = ''PL_x'', pageToken = Some ''t2''\<rparr>],
            drive = [], slept = []\<rparr>)"
proof -
  have h: "serves two_page_env ''PL_x'' None [page_one, page_two]"
    by (simp add: two_page_env_def example_env_def page_request_def page_one_def page_two_def)
  show ?thesis
    using reader_yields_all_pages [OF h, of init_state]
    by (simp add: page_items_def page_one_def page_two_def yield_of_def init_state_def
          page_request_def)
qed

text \<open>
  The other direction: against a provider that answers every request with a page that
  carries a continuation token, the reader never returns.
\<close>

lemma reader_never_returns_aux:
  assumes "YoutubePlaylist_loop e pid body tok a s = Some y"
  shows "\<not> (body = record_pair \<and>
            (\<forall>t. \<exists>p. playlistItems_list e (page_request pid t) = Inr p \<and>
                       truthy (nextPageToken p)))"
  using assms
proof (induction e pid body tok a s y rule: YoutubePlaylist_loop.raw_induct [rotated 1, consumes 1, case_names step])
  case (step loop e pid body tok a s y)
  show ?case
  proof
    assume h: "body = record_pair \<and>
            (\<forall>t. \<exists>p. playlistItems_list e (page_request pid t) = Inr p \<and>
                       truthy (nextPageToken p))"
    then obtain p where p: "playlistItems_list e (page_request pid tok) = Inr p"
        "truthy (nextPageToken p)"
      by blast
    from step(2) h p have "\<exists>a' s1. loop e pid body (nextPageToken p) a' s1 = Some y"
      by (auto simp: list_execute_def for_items_record)
    then obtain a' s1 where "loop e pid body (nextPageToken p) a' s1 = Some y" by blast
    from step(1) [OF this] h show False by blast
  qed
qed

lemma reader_never_returns:
  assumes "\<forall>t. \<exists>p. playlistItems_list e (page_request pid t) = Inr p \<and> truthy (nextPageToken p)"
  shows "YoutubePlaylist e pid record_pair [] s = None"
proof (cases "YoutubePlaylist_loop e pid record_pair None [] s")
  case None
  then show ?thesis by (simp add: YoutubePlaylist_def)
next
  case (Some y)
  from reader_never_returns_aux [OF Some] assms show ?thesis by blast
qed

subsection \<open>The snapshot builder\<close>

lemma append_item_complete:
  "complete p \<Longrightarrow> append_item p pl = Inr (pl\<lparr>items := items pl @ [wrap p]\<rparr>)"
  by (cases p; cases "fst p"; cases "snd p") (simp_all add: complete_def append_item_def wrap_def)

lemma append_item_incomplete: "\<not> complete p \<Longrightarrow> append_item p pl = Inl none_not_allowed"
  by (cases p; cases "fst p"; cases "snd p") (simp_all add: complete_def append_item_def)

lemma for_items_append:
  "for_items append_item its pl =
     (if \<forall>i \<in> set its. complete (yield_of i)
      then Inr (pl\<lparr>items := items pl @ map wrap (map yield_of its)\<rparr>)
      else Inl none_not_allowed)"
proof (induction its arbitrary: pl)
  case Nil
  show ?case by simp
next
  case (Cons i its)
  show ?case
  proof (cases "complete (yield_of i)")
    case True
    then show ?thesis by (simp add: append_item_complete Cons)
  next
    case False
    then show ?thesis by (simp add: append_item_incomplete)
  qed
qed

lemma pair_of_wrap: "complete p \<Longrightarrow> pair_of (wrap p) = p"
  by (cases p) (auto simp: complete_def pair_of_def wrap_def)

lemma map_pair_of_wrap: "\<forall>p \<in> set ps. complete p \<Longrightarrow> map pair_of (map wrap ps) = ps"
  by (induction ps) (simp_all add: pair_of_wrap)

lemma loop_fusion:
  assumes "YoutubePlaylist_loop e pid body tok acc s = Some y"
  shows "body = record_pair \<longrightarrow> (\<forall>ps. fst y = Inr ps \<longrightarrow>
           (\<exists>ys. ps = acc @ ys \<and>
              ((\<forall>p \<in> set ys. complete p) \<longrightarrow>
                 (\<forall>pl. YoutubePlaylist_loop e pid append_item tok pl s =
                         Some (Inr (pl\<lparr>items := items pl @ map wrap ys\<rparr>), snd y))) \<and>
              (\<not> (\<forall>p \<in> set ys. complete p) \<longrightarrow>
                 (\<forall>pl. \<exists>s'. YoutubePlaylist_loop e pid append_item tok pl s =
                         Some (Inl none_not_allowed, s')))))"
  using assms
proof (induction e pid body tok acc s y rule: YoutubePlaylist_loop.raw_induct [rotated 1, consumes 1, case_names step])
  case (step loop e pid body tok acc s y)
  show ?case
  proof (intro impI allI)
    fix ps
    assume b: "body = record_pair" and r: "fst y = Inr ps"
    obtain ans s1 where le: "list_execute e (page_request pid tok) s = (ans, s1)"
      by (cases "list_execute e (page_request pid tok) s")
    let ?goal = "\<lambda>ys. ps = acc @ ys \<and>
              ((\<forall>p \<in> set ys. complete p) \<longrightarrow>
                 (\<forall>pl. YoutubePlaylist_loop e pid append_item tok pl s =
                         Some (Inr (pl\<lparr>items := items pl @ map wrap ys\<rparr>), snd y))) \<and>
              (\<not> (\<forall>p \<in> set ys. complete p) \<longrightarrow>
                 (\<forall>pl. \<exists>s'. YoutubePlaylist_loop e pid append_item tok pl s =
                         Some (Inl none_not_allowed, s')))"
    show "\<exists>ys. ?goal ys"
    proof (cases ans)
      case (Inl x)
      with step(2) le r show ?thesis by auto
    next
      case (Inr page)
      let ?its = "get_default (response_items page) []"
      show ?thesis
      proof (cases "truthy (nextPageToken page)")
        case False
        with step(2) le Inr b r have y: "y = (Inr (acc @ map yield_of ?its), s1)"
          by (auto simp: for_items_record)
        have "?goal (map yield_of ?its)"
          using le Inr False y r
          by (subst (1 2) YoutubePlaylist_loop.simps) (simp add: for_items_append)
        then show ?thesis ..
      next
        case True
        with step(2) le Inr b
        have rec: "loop e pid record_pair (nextPageToken page) (acc @ map yield_of ?its) s1 = Some y"
          by (auto simp: for_items_record)
        from step(1)[OF rec] r obtain zs where
          zs: "ps = (acc @ map yield_of ?its) @ zs"
          and h1': "(\<forall>p \<in> set zs. complete p) \<longrightarrow>
                 (\<forall>pl. YoutubePlaylist_loop e pid append_item (nextPageToken page) pl s1 =
                         Some (Inr (pl\<lparr>items := items pl @ map wrap zs\<rparr>), snd y))"
          and h2': "\<not> (\<forall>p \<in> set zs. complete p) \<longrightarrow>
                 (\<forall>pl. \<exists>s'. YoutubePlaylist_loop e pid append_item (nextPageToken page) pl s1 =
                         Some (Inl none_not_allowed, s'))"
          by auto
        from h1' have h1: "(\<forall>p \<in> set zs. complete p) \<Longrightarrow>
                 YoutubePlaylist_loop e pid append_item (nextPageToken page) pl s1 =
                         Some (Inr (pl\<lparr>items := items pl @ map wrap zs\<rparr>), snd y)" for pl
          by simp
        from h2' have h2: "\<not> (\<forall>p \<in> set zs. complete p) \<Longrightarrow>
                 \<exists>s'. YoutubePlaylist_loop e pid append_item (nextPageToken page) pl s1 =
                         Some (Inl none_not_allowed, s')" for pl
          by simp
        have unfold: "\<And>pl. YoutubePlaylist_loop e pid append_item tok pl s =
            (if \<forall>i \<in> set ?its. complete (yield_of i)
             then YoutubePlaylist_loop e pid append_item (nextPageToken page)
                    (pl\<lparr>items := items pl @ map wrap (map yield_of ?its)\<rparr>) s1
             else Some (Inl none_not_allowed, s1))"
          using le Inr True
          by (subst YoutubePlaylist_loop.simps) (simp add: for_items_append)
        have "?goal (map yield_of ?its @ zs)"
        proof (cases "\<forall>i \<in> set ?its. complete (yield_of i)")
          case False
          then have "\<not> (\<forall>p \<in> set (map yield_of ?its @ zs). complete p)" by auto
          with False zs show ?thesis by (simp only: unfold) simp
        next
          case page: True
          show ?thesis
          proof (cases "\<forall>p \<in> set zs. complete p")
            case True
            with page have all: "\<forall>p \<in> set (map yield_of ?its @ zs). complete p" by auto
            have "\<And>pl. YoutubePlaylist_loop e pid append_item tok pl s =
                Some (Inr (pl\<lparr>items := items pl @ map wrap (map yield_of ?its @ zs)\<rparr>), snd y)"
              using page by (simp only: unfold h1 [OF True]) simp
            with zs all show ?thesis by simp
          next
            case False
            then have no: "\<not> (\<forall>p \<in> set (map yield_of ?its @ zs). complete p)" by auto
            have ex: "\<forall>pl. \<exists>s'. YoutubePlaylist_loop e pid append_item tok pl s =
                Some (Inl none_not_allowed, s')"
              using page h2 [OF False] by (simp only: unfold) simp
            from zs have "ps = acc @ map yield_of ?its @ zs" by simp
            with ex show ?thesis by (simp only: no simp_thms)
          qed
        qed
        then show ?thesis ..
      qed
    qed
  qed
qed

lemma builder_of_reader:
  assumes "YoutubePlaylist e pid record_pair [] s = Some (Inr ps, s')"
  shows "(\<forall>p \<in> set ps. complete p) \<longrightarrow>
           YoutubePlaylist e pid append_item pl s =
             Some (Inr (pl\<lparr>items := items pl @ map wrap ps\<rparr>), s')"
    and "\<not> (\<forall>p \<in> set ps. complete p) \<longrightarrow>
           (\<exists>s''. YoutubePlaylist e pid append_item pl s = Some (Inl none_not_allowed, s''))"
  using loop_fusion [of e pid record_pair None "[]" s "(Inr ps, s')"] assms
  by (simp_all add: YoutubePlaylist_def)

text \<open>
  Claim C8, as the code has it. For every sequence the reader yields in which each pair
  carries both a video id and a title, the snapshot built from it holds one item per
  yielded pair, each pair wrapped into a \<open>PlaylistItem\<close>, in the order of the yields;
  nothing is deduplicated.
\<close>

theorem snapshot_of_complete_pairs:
  assumes "YoutubePlaylist e pid record_pair [] s = Some (Inr ps, s')"
    and "\<forall>p \<in> set ps. complete p"
  shows "YoutubePlaylist e pid append_item Playlist_init s =
           Some (Inr \<lparr>items = map wrap ps, name = None\<rparr>, s') \<and>
         length (map wrap ps) = length ps \<and>
         map pair_of (map wrap ps) = ps"
proof -
  have a: "YoutubePlaylist e pid append_item Playlist_init s =
           Some (Inr \<lparr>items = map wrap ps, name = None\<rparr>, s')"
    using builder_of_reader(1) [OF assms(1), of Playlist_init] assms(2)
    by (simp add: Playlist_init_def)
  have b: "map pair_of (map wrap ps) = ps"
    by (rule map_pair_of_wrap [OF assms(2)])
  show ?thesis by (intro conjI a b length_map)
qed

theorem snapshot_of_complete_pairs_witness:
  "YoutubePlaylist two_page_env ''PL_x'' append_item Playlist_init init_state =
     Some (Inr \<lparr>items = [\<lparr>video = ''v1'', title = ''Song A''\<rparr>,
                          \<lparr>video = ''v2'', title = ''Song B''\<rparr>],
                 name = None\<rparr>,
           \<lparr>console = [],
            calls = [ListCall \<lparr>part = ''snippet,contentDetails'', maxResults = 25,
                               playlistId = ''PL_x'', pageToken = None\<rparr>,
                     ListCall \<lparr>part = ''snippet,contentDetails'', maxResults = 25,
                               playlistId = ''PL_x'', pageToken = Some ''t2''\<rparr>],
            drive = [], slept = []\<rparr>)"
proof -
  have r: "YoutubePlaylist two_page_env ''PL_x'' record_pair [] init_state =
     Some (Inr [(Some ''v1'', Some ''Song A''), (Some ''v2'', Some ''Song B'')],
           \<lparr>console = [],
            calls = [ListCall \<lparr>part = ''snippet,contentDetails'', maxResults = 25,
                               playlistId = ''PL_x'', pageToken = None\<rparr>,
                     ListCall \<lparr>part = ''snippet,contentDetails'', maxResults = 25,
                               playlistId = ''PL_x'', pageToken = Some ''t2''\<rparr>],
            drive = [], slept = []\<rparr>)"
    by (simp add: YoutubePlaylist_def YoutubePlaylist_loop.simps two_page_env_def example_env_def
          list_execute_def page_request_def page_one_def page_two_def yield_of_def record_pair_def
          init_state_def)
  have c: "\<forall>p \<in> set [(Some ''v1'', Some ''Song A''), (Some ''v2'', Some ''Song B'')]. complete p"
    by (simp add: complete_def)
  show ?thesis
    using snapshot_of_complete_pairs [OF r c] by (simp add: wrap_def)
qed

text \<open>
  Claim C8 as it is written, for every yielded sequence, fails on a sequence with a
  missing title: the reader yields the pair, and building the snapshot raises.
\<close>

theorem snapshot_of_yielded_counterexample:
  "YoutubePlaylist untitled_env ''PL_x'' record_pair [] init_state =
     Some (Inr [(Some ''v1'', None)],
           \<lparr>console = [],
            calls = [ListCall \<lparr>part = ''snippet,contentDetails'', maxResults = 25,
                               playlistId = ''PL_x'', pageToken = None\<rparr>],
            drive = [], slept = []\<rparr>) \<and>
   YoutubePlaylist untitled_env ''PL_x'' append_item Playlist_init init_state =
     Some (Inl (ValidationError ''none is not an allowed value''),
           \<lparr>console = [],
            calls = [ListCall \<lparr>part = ''snippet,contentDetails'', maxResults = 25,
                               playlistId = ''PL_x'', pageToken = None\<rparr>],
            drive = [], slept = []\<rparr>)"
  by (simp add: YoutubePlaylist_def YoutubePlaylist_loop.simps untitled_env_def example_env_def
        list_execute_def page_request_def yield_of_def record_pair_def append_item_def
        none_not_allowed_def init_state_def)

subsection \<open>The run as a whole\<close>

lemma uploads_append: "uploads (cs @ ds) = uploads cs @ uploads ds"
  by (simp add: uploads_def)


lemma loop_frame:
  assumes "YoutubePlaylist_loop e pid body tok a s = Some y"
  shows "console (snd y) = console s \<and> drive (snd y) = drive s \<and> slept (snd y) = slept s \<and>
         (\<exists>cs. calls (snd y) = calls s @ cs \<and> uploads cs = [] \<and> fetches cs = [])"
  using assms
proof (induction e pid body tok a s y rule: YoutubePlaylist_loop.raw_induct [rotated 1, consumes 1, case_names step])
  case (step loop e pid body tok a s y)
  let ?s1 = "s\<lparr>calls := calls s @ [ListCall (page_request pid tok)]\<rparr>"
  have one: "uploads [ListCall (page_request pid tok)] = [] \<and> fetches [ListCall (page_request pid tok)] = []"
    by (simp add: uploads_def fetches_def)
  from step(2) have "snd y = ?s1 \<or> (\<exists>tok' a'. loop e pid body tok' a' ?s1 = Some y)"
    by (auto simp: list_execute_def split: sum.splits if_splits)
  then show ?case
  proof
    assume "snd y = ?s1"
    with one show ?thesis by simp
  next
    assume "\<exists>tok' a'. loop e pid body tok' a' ?s1 = Some y"
    then obtain tok' a' where "loop e pid body tok' a' ?s1 = Some y" by blast
    from step(1) [OF this] obtain cs where
      f: "console (snd y) = console s" "drive (snd y) = drive s" "slept (snd y) = slept s"
      and cs: "calls (snd y) = (calls s @ [ListCall (page_request pid tok)]) @ cs"
         "uploads cs = []" "fetches cs = []"
      by auto
    from cs one have "calls (snd y) = calls s @ (ListCall (page_request pid tok) # cs) \<and>
        uploads (ListCall (page_request pid tok) # cs) = [] \<and>
        fetches (ListCall (page_request pid tok) # cs) = []"
      by (simp add: uploads_def fetches_def)
    with f show ?thesis by blast
  qed
qed



lemma transfer_item_frame:
  "\<exists>cs fs. calls (transfer_item e k item s) = calls s @ cs \<and>
     drive (transfer_item e k item s) = drive s @ fs \<and>
     (\<forall>f \<in> set (uploads cs). mimetype f = ''audio/mpeg3'') \<and>
     (\<forall>f \<in> set fs. mimetype f = ''audio/mpeg3'')"
  by (auto simp: step_defs Let_def uploads_def track_file_def
           split: sum.splits option.splits)

lemma transfer_loop_frame:
  "\<exists>cs fs. calls (transfer_loop e k its s) = calls s @ cs \<and>
     drive (transfer_loop e k its s) = drive s @ fs \<and>
     (\<forall>f \<in> set (uploads cs). mimetype f = ''audio/mpeg3'') \<and>
     (\<forall>f \<in> set fs. mimetype f = ''audio/mpeg3'')"
proof (induction its arbitrary: k s)
  case Nil
  show ?case by (simp add: uploads_def)
next
  case (Cons item its)
  obtain cs fs where a: "calls (transfer_item e k item s) = calls s @ cs"
      "drive (transfer_item e k item s) = drive s @ fs"
      "\<forall>f \<in> set (uploads cs). mimetype f = ''audio/mpeg3''"
      "\<forall>f \<in> set fs. mimetype f = ''audio/mpeg3''"
    using transfer_item_frame [of e k item s] by blast
  obtain cs' fs' where b:
      "calls (transfer_loop e (Suc k) its (transfer_item e k item s)) =
         calls (transfer_item e k item s) @ cs'"
      "drive (transfer_loop e (Suc k) its (transfer_item e k item s)) =
         drive (transfer_item e k item s) @ fs'"
      "\<forall>f \<in> set (uploads cs'). mimetype f = ''audio/mpeg3''"
      "\<forall>f \<in> set fs'. mimetype f = ''audio/mpeg3''"
    using Cons [of "Suc k" "transfer_item e k item s"] by blast
  have "calls (transfer_loop e k (item # its) s) = calls s @ (cs @ cs') \<and>
     drive (transfer_loop e k (item # its) s) = drive s @ (fs @ fs') \<and>
     (\<forall>f \<in> set (uploads (cs @ cs')). mimetype f = ''audio/mpeg3'') \<and>
     (\<forall>f \<in> set (fs @ fs'). mimetype f = ''audio/mpeg3'')"
    using a b by (auto simp: uploads_append)
  then show ?case by blast
qed

lemma build_snapshot_frame:
  assumes "build_snapshot e = Some (r, s1)"
  shows "console s1 = ['':inbox_tray: downloading playlist metadata''] \<and> drive s1 = [] \<and>
         slept s1 = [] \<and> uploads (calls s1) = [] \<and> fetches (calls s1) = []"
  using loop_frame [of e "YOUTUBE_PLAYLIST_ID (settings e)" append_item None Playlist_init
          "print '':inbox_tray: downloading playlist metadata'' init_state" "(r, s1)"] assms
  by (auto simp: build_snapshot_def YoutubePlaylist_def print_def init_state_def)


lemma entrypoint_refused:
  assumes "build_snapshot e = Some (Inr playlist, s1)"
    and "files_create e Report (report_file e playlist) = Some x"
  shows "entrypoint e =
     Some (Some x, s1\<lparr>console := console s1 @ ['':inbox_tray: uploading playlist metadata to GDrive''],
                      calls := calls s1 @ [CreateCall (report_file e playlist)]\<rparr>)"
  using assms by (simp add: entrypoint_def create_execute_def print_def)

lemma entrypoint_accepted:
  assumes "build_snapshot e = Some (Inr playlist, s1)"
    and "files_create e Report (report_file e playlist) = None"
  shows "entrypoint e =
     Some (None, transfer_loop e 0 (items playlist)
       (s1\<lparr>console := console s1 @ ['':inbox_tray: uploading playlist metadata to GDrive''],
           calls := calls s1 @ [CreateCall (report_file e playlist)],
           drive := drive s1 @ [report_file e playlist]\<rparr>))"
  using assms by (simp add: entrypoint_def create_execute_def print_def)

text \<open>
  Claim C4. In a run that has built its snapshot, the result of the run is the result of
  the report upload: its exception, if it raises, is the run's uncaught exception.
  Everything before the report upload is a listing call, and when the upload raises
  nothing comes after it and nothing is on Drive: no fetch, no track upload. So track
  transfer starts only after the report upload has returned.
\<close>

theorem metadata_failure_aborts_run:
  assumes "build_snapshot e = Some (Inr playlist, s1)"
  shows "\<exists>pre post s.
           entrypoint e = Some (files_create e Report (report_file e playlist), s) \<and>
           calls s = pre @ CreateCall (report_file e playlist) # post \<and>
           fetches pre = [] \<and> uploads pre = [] \<and>
           (files_create e Report (report_file e playlist) \<noteq> None \<longrightarrow>
              post = [] \<and> drive s = [])"
proof (cases "files_create e Report (report_file e playlist)")
  case None
  let ?s2 = "s1\<lparr>console := console s1 @ ['':inbox_tray: uploading playlist metadata to GDrive''],
           calls := calls s1 @ [CreateCall (report_file e playlist)],
           drive := drive s1 @ [report_file e playlist]\<rparr>"
  obtain cs where "calls (transfer_loop e 0 (items playlist) ?s2) = calls ?s2 @ cs"
    using transfer_loop_frame [of e 0 "items playlist" ?s2] by blast
  then have "calls (transfer_loop e 0 (items playlist) ?s2) =
      calls s1 @ CreateCall (report_file e playlist) # cs"
    by simp
  with entrypoint_accepted [OF assms None] build_snapshot_frame [OF assms] None
  show ?thesis by auto
next
  case (Some x)
  with entrypoint_refused [OF assms Some] build_snapshot_frame [OF assms]
  show ?thesis by auto
qed

theorem metadata_failure_aborts_run_witness:
  "\<exists>pre post s.
     entrypoint refusing_env = Some (Some (ExternalError ''storageQuotaExceeded''), s) \<and>
     calls s = pre @
       CreateCall (DriveFile ''youtube-PL_x-20240301.json'' [''report-folder'']
         ''application/json''
         (StringIO (JObject
           [(''items'', JArray
               [JObject [(''video'', JString ''v1''), (''title'', JString ''Song A'')],
                JObject [(''video'', JString ''v2''), (''title'', JString ''Song B'')]]),
            (''name'', JNull)]))) # post \<and>
     fetches pre = [] \<and> uploads pre = [] \<and> post = [] \<and> drive s = []"
proof -
  have b: "build_snapshot refusing_env =
      Some (Inr \<lparr>items = [\<lparr>video = ''v1'', title = ''Song A''\<rparr>,
                           \<lparr>video = ''v2'', title = ''Song B''\<rparr>], name = None\<rparr>,
            \<lparr>console = ['':inbox_tray: downloading playlist metadata''],
             calls = [ListCall \<lparr>part = ''snippet,contentDetails'', maxResults = 25,
                               playlistId = ''PL_x'', pageToken = None\<rparr>],
             drive = [], slept = []\<rparr>)"
    by (simp add: build_snapshot_def YoutubePlaylist_def YoutubePlaylist_loop.simps
          refusing_env_def example_env_def example_settings_def example_page_def
          list_execute_def page_request_def yield_of_def append_item_def Playlist_init_def
          print_def init_state_def)
  show ?thesis
    using metadata_failure_aborts_run [OF b]
    by (simp add: refusing_env_def example_env_def example_settings_def report_file_def
          report_name_def strftime_Y_def strftime_m_def strftime_d_def digit_def
          Playlist_json_def PlaylistItem_json_def)
qed














lemma reader_of_serves:
  assumes "serves e pid None ps"
  shows "\<exists>s'. YoutubePlaylist e pid record_pair [] s =
           Some (Inr (map yield_of (concat (map page_items ps))), s')"
  using loop_serves_record [OF assms, of "[]" s] by (simp add: YoutubePlaylist_def)



text \<open>
  Claim C3, as the code has it. The reader filters nothing: it yields one pair for every
  item of every page, in order, and a video id or a title that the item lacks is
  \<^verbatim>\<open>None\<close> in the pair. But such an item does not reach the snapshot: building the
  \<open>PlaylistItem\<close> for a pair with a \<^verbatim>\<open>None\<close> raises a validation error, which nothing
  catches, so the run ends with it before anything is uploaded or fetched.
\<close>

theorem missing_fields_yielded_then_rejected:
  assumes "serves e (YOUTUBE_PLAYLIST_ID (settings e)) None ps"
  shows "map_option fst (YoutubePlaylist e (YOUTUBE_PLAYLIST_ID (settings e)) record_pair [] s) =
           Some (Inr (map yield_of (concat (map page_items ps)))) \<and>
         (\<forall>item. yield_of item =
            ((case contentDetails item of None \<Rightarrow> None | Some c \<Rightarrow> videoId c),
             (case snippet item of None \<Rightarrow> None | Some t \<Rightarrow> snippet_title t))) \<and>
         ((\<exists>item \<in> set (concat (map page_items ps)). \<not> complete (yield_of item)) \<longrightarrow>
            (\<exists>s'. build_snapshot e = Some (Inl none_not_allowed, s') \<and>
                  entrypoint e = Some (Some none_not_allowed, s') \<and>
                  uploads (calls s') = [] \<and> fetches (calls s') = [] \<and> drive s' = []))"
proof -
  let ?s0 = "print '':inbox_tray: downloading playlist metadata'' init_state"
  have y: "yield_of item =
            ((case contentDetails item of None \<Rightarrow> None | Some c \<Rightarrow> videoId c),
             (case snippet item of None \<Rightarrow> None | Some t \<Rightarrow> snippet_title t))" for item
    by (simp add: yield_of_def split: option.splits)
  have a: "map_option fst (YoutubePlaylist e (YOUTUBE_PLAYLIST_ID (settings e)) record_pair [] s) =
           Some (Inr (map yield_of (concat (map page_items ps))))"
    using reader_of_serves [OF assms, of s] by auto
  have c: "\<exists>s'. build_snapshot e = Some (Inl none_not_allowed, s') \<and>
                  entrypoint e = Some (Some none_not_allowed, s') \<and>
                  uploads (calls s') = [] \<and> fetches (calls s') = [] \<and> drive s' = []"
    if bad: "\<exists>item \<in> set (concat (map page_items ps)). \<not> complete (yield_of item)"
  proof -
    obtain s1 where r: "YoutubePlaylist e (YOUTUBE_PLAYLIST_ID (settings e)) record_pair [] ?s0 =
        Some (Inr (map yield_of (concat (map page_items ps))), s1)"
      using reader_of_serves [OF assms, of ?s0] by blast
    from bad have "\<not> (\<forall>p \<in> set (map yield_of (concat (map page_items ps))). complete p)"
      by auto
    with builder_of_reader(2) [OF r, of Playlist_init]
    obtain s' where b: "build_snapshot e = Some (Inl none_not_allowed, s')"
      by (auto simp: build_snapshot_def)
    from b have "entrypoint e = Some (Some none_not_allowed, s')"
      by (simp add: entrypoint_def)
    with b build_snapshot_frame [OF b] show ?thesis by auto
  qed
  from a y c show ?thesis by blast
qed

theorem missing_fields_yielded_then_rejected_witness:
  "map_option fst (YoutubePlaylist no_video_env ''PL_x'' record_pair [] init_state) =
     Some (Inr [(None, Some ''Song A''), (Some ''v2'', Some ''Song B'')]) \<and>
   (\<exists>s'. build_snapshot no_video_env =
            Some (Inl (ValidationError ''none is not an allowed value''), s') \<and>
          entrypoint no_video_env =
            Some (Some (ValidationError ''none is not an allowed value''), s') \<and>
          uploads (calls s') = [] \<and> fetches (calls s') = [] \<and> drive s' = [])"
proof -
  let ?page = "Response
          (Some [Resource None (Some (Snippet (Some ''Song A''))),
                 Resource (Some (ContentDetails (Some ''v2''))) (Some (Snippet (Some ''Song B'')))])
          None"
  have h: "serves no_video_env (YOUTUBE_PLAYLIST_ID (settings no_video_env)) None [?page]"
    by (simp add: no_video_env_def example_env_def)
  have bad: "\<exists>item \<in> set (concat (map page_items [?page])). \<not> complete (yield_of item)"
    by (simp add: page_items_def yield_of_def complete_def)
  show ?thesis
    using missing_fields_yielded_then_rejected [OF h, of init_state] bad
    by (simp add: no_video_env_def example_env_def example_settings_def page_items_def
          yield_of_def none_not_allowed_def)
qed

text \<open>
  Claim C3 as it is written fails on an item without a video id: the reader does yield
  it, with \<^verbatim>\<open>None\<close> for the id, but it does not flow into the snapshot like any other;
  the run ends with the validation error, after the listing call.
\<close>

theorem missing_field_enters_snapshot_counterexample:
  "YoutubePlaylist no_video_env ''PL_x'' record_pair [] init_state =
     Some (Inr [(None, Some ''Song A''), (Some ''v2'', Some ''Song B'')],
           \<lparr>console = [],
            calls = [ListCall \<lparr>part = ''snippet,contentDetails'', maxResults = 25,
                               playlistId = ''PL_x'', pageToken = None\<rparr>],
            drive = [], slept = []\<rparr>) \<and>
   entrypoint no_video_env =
     Some (Some (ValidationError ''none is not an allowed value''),
           \<lparr>console = ['':inbox_tray: downloading playlist metadata''],
            calls = [ListCall \<lparr>part = ''snippet,contentDetails'', maxResults = 25,
                               playlistId = ''PL_x'', pageToken = None\<rparr>],
            drive = [], slept = []\<rparr>)"
  by (simp add: entrypoint_def build_snapshot_def YoutubePlaylist_def YoutubePlaylist_loop.simps
        no_video_env_def example_env_def example_settings_def list_execute_def page_request_def
        yield_of_def record_pair_def append_item_def none_not_allowed_def Playlist_init_def
        print_def init_state_def)

subsection \<open>Track transfer\<close>

lemma warnings_append: "warnings (xs @ ys) = warnings xs @ warnings ys"
  by (simp add: warnings_def)

lemma transfer_item_failed:
  assumes "transfer_error e k item = Some x"
  shows "warnings (console (transfer_item e k item s)) =
           warnings (console s) @ [warning_line item x] \<and>
         drive (transfer_item e k item s) = drive s"
  using assms
  by (auto simp: transfer_error_def step_defs Let_def warnings_def warning_line_def
           split: sum.splits)

lemma transfer_item_done:
  assumes "transfer_error e k item = None" and "upload_seconds e k \<le> 30"
  shows "warnings (console (transfer_item e k item s)) = warnings (console s) \<and>
         map file_name (drive (transfer_item e k item s)) =
           map file_name (drive s) @ [title item @ ''.mp3'']"
  using assms
  by (auto simp: transfer_error_def step_defs Let_def warnings_def throttle_def track_file_def
           split: sum.splits)

lemma transfer_loop_append:
  "transfer_loop e k (xs @ ys) s = transfer_loop e (k + length xs) ys (transfer_loop e k xs s)"
  by (induction xs arbitrary: k s) simp_all

lemma transfer_loop_done:
  assumes "\<forall>j < length its. transfer_error e (k + j) (its ! j) = None \<and> upload_seconds e (k + j) \<le> 30"
  shows "warnings (console (transfer_loop e k its s)) = warnings (console s) \<and>
         map file_name (drive (transfer_loop e k its s)) =
           map file_name (drive s) @ map (\<lambda>i. title i @ ''.mp3'') its"
  using assms
proof (induction its arbitrary: k s)
  case Nil
  show ?case by simp
next
  case (Cons item its)
  from Cons.prems have h: "transfer_error e k item = None" "upload_seconds e k \<le> 30"
    by force+
  have t: "\<forall>j < length its. transfer_error e (Suc k + j) (its ! j) = None \<and>
             upload_seconds e (Suc k + j) \<le> 30"
  proof (intro allI impI)
    fix j assume "j < length its"
    then have "Suc j < length (item # its)" by simp
    with Cons.prems have "transfer_error e (k + Suc j) ((item # its) ! Suc j) = None \<and>
        upload_seconds e (k + Suc j) \<le> 30" by blast
    then show "transfer_error e (Suc k + j) (its ! j) = None \<and> upload_seconds e (Suc k + j) \<le> 30"
      by simp
  qed
  show ?case
    using Cons.IH [OF t, of "transfer_item e k item s"] transfer_item_done [OF h, of s]
    by simp
qed

text \<open>
  When exactly one track fails in its fetch or its upload, and every other track is
  fetched and uploaded with an upload of at most 30 seconds, the loop goes through all
  the tracks, prints exactly one warning, the one of the failed track with its error
  message, and leaves on Drive the files of all the other tracks, in snapshot order.
\<close>

lemma one_failure_one_warning:
  assumes K: "K < length its"
    and bad: "transfer_error e K (its ! K) = Some x"
    and good: "\<forall>j < length its. j \<noteq> K \<longrightarrow>
                 transfer_error e j (its ! j) = None \<and> upload_seconds e j \<le> 30"
  shows "warnings (console (transfer_loop e 0 its s)) =
           warnings (console s) @ [warning_line (its ! K) x] \<and>
         map file_name (drive (transfer_loop e 0 its s)) =
           map file_name (drive s) @
           map (\<lambda>i. title i @ ''.mp3'') (take K its @ drop (Suc K) its)"
proof -
  let ?pre = "take K its" and ?post = "drop (Suc K) its"
  have its: "its = ?pre @ (its ! K) # ?post"
    using K by (simp add: id_take_nth_drop)
  have lp: "length ?pre = K" using K by simp
  have pre: "\<forall>j < length ?pre. transfer_error e (0 + j) (?pre ! j) = None \<and>
                upload_seconds e (0 + j) \<le> 30"
    using good K by simp
  have post: "\<forall>j < length ?post. transfer_error e (Suc K + j) (?post ! j) = None \<and>
                upload_seconds e (Suc K + j) \<le> 30"
    using good K by simp
  let ?s1 = "transfer_loop e 0 ?pre s"
  let ?s2 = "transfer_item e K (its ! K) ?s1"
  have "transfer_loop e 0 its s = transfer_loop e 0 (?pre @ (its ! K) # ?post) s"
    using its by simp
  also have "\<dots> = transfer_loop e (Suc K) ?post ?s2"
    by (simp only: transfer_loop_append transfer_loop.simps lp add_0)
  finally have run: "transfer_loop e 0 its s = transfer_loop e (Suc K) ?post ?s2" .
  show ?thesis
    using transfer_loop_done [OF pre, of s] transfer_item_failed [OF bad, of ?s1]
      transfer_loop_done [OF post, of ?s2]
    by (simp add: run)
qed

text \<open>
  Claim C1 asks for exactly one warning whenever exactly one track fails in its fetch or
  its upload. The run below has two tracks; the first cannot be fetched, the second is
  fetched and uploaded, and its upload takes 31 seconds. The exception of the first
  track is caught, the loop continues and the one file of the second track is on Drive;
  but the console carries two warnings, the second one for the track that was
  uploaded, because \<^verbatim>\<open>sleep(min(30 - delay, 0))\<close> raises on the negative duration.
\<close>

theorem slow_upload_second_warning:
  "entrypoint slow_env =
     Some (None,
       \<lparr>console =
          ['':inbox_tray: downloading playlist metadata'',
           '':inbox_tray: uploading playlist metadata to GDrive'',
           '':cd: downloading Song A from YouTube'',
           '':warning: [yellow]error while processing track Song A: video unavailable[/yellow]'',
           '':cd: downloading Song B from YouTube'',
           '':speak_no_evil: uploading Song B.mp3 to GDrive'',
           '':warning: [yellow]error while processing track Song B: sleep length must be non-negative[/yellow]''],
        calls =
          [ListCall \<lparr>part = ''snippet,contentDetails'', maxResults = 25,
                     playlistId = ''PL_x'', pageToken = None\<rparr>,
           CreateCall (DriveFile ''youtube-PL_x-20240301.json'' [''report-folder'']
             ''application/json''
             (StringIO (JObject
               [(''items'', JArray
                   [JObject [(''video'', JString ''v1''), (''title'', JString ''Song A'')],
                    JObject [(''video'', JString ''v2''), (''title'', JString ''Song B'')]]),
                (''name'', JNull)]))),
           FetchCall ''https://youtube.com/watch?v=v1'',
           FetchCall ''https://youtube.com/watch?v=v2'',
           CreateCall (DriveFile ''Song B.mp3'' [''audio-folder''] ''audio/mpeg3''
             (BytesIO [1, 2, 3]))],
        drive =
          [DriveFile ''youtube-PL_x-20240301.json'' [''report-folder'']
             ''application/json''
             (StringIO (JObject
               [(''items'', JArray
                   [JObject [(''video'', JString ''v1''), (''title'', JString ''Song A'')],
                    JObject [(''video'', JString ''v2''), (''title'', JString ''Song B'')]]),
                (''name'', JNull)])),
           DriveFile ''Song B.mp3'' [''audio-folder''] ''audio/mpeg3'' (BytesIO [1, 2, 3])],
        slept = []\<rparr>)"
  by (simp add: entrypoint_def build_snapshot_def YoutubePlaylist_def YoutubePlaylist_loop.simps
        slow_env_def example_env_def example_settings_def example_page_def
        list_execute_def page_request_def yield_of_def append_item_def Playlist_init_def
        print_def init_state_def create_execute_def report_file_def report_name_def
        strftime_Y_def strftime_m_def strftime_d_def digit_def Playlist_json_def
        PlaylistItem_json_def transfer_item_def transfer_try_def fetch_execute_def watch_url_def
        track_file_def sleep_def throttle_def warning_line_def)

end
